theory Spec2Isabelle
  imports Complex_Main "HOL-Library.Word"
begin

section \<open>The data of Arc.cpp\<close>

text \<open>
  An \<open>unsigned int\<close> is a 32-bit word; its order is the unsigned one. A \<open>double\<close>
  is a real number: the comparisons of the code are the comparisons of the reals on every
  finite value, and the rounding of double arithmetic, infinities and NaN are not part of
  this model.
\<close>

type_synonym uint = "32 word"
type_synonym double = real

text \<open>
  The fields of a \<open>Tag\<close> that Arc.cpp reads. The fields \<open>id\<close>, \<open>x\<close> and \<open>y\<close> of
  the source are \<open>id_tag\<close>, \<open>x_tag\<close> and \<open>y_tag\<close> here. Tag.hpp is not part of
  Arc.cpp; the id and the hop count have the type of the variables that receive them in
  \<open>Arc__read\<close> and \<open>Arc__distance_less\<close>, which is \<open>unsigned int\<close>, and the two
  coordinates are the \<open>double\<close> arguments of \<open>SVG__line\<close>.
\<close>

record Tag =
  id_tag :: uint
  hop_count :: uint
  x_tag :: double
  y_tag :: double

text \<open>
  An \<open>Arc\<close>, with the fields in the order in which \<open>Arc__new\<close> sets them. The two tags
  are pointers in the source: \<open>None\<close> is the null pointer that \<open>Arc__new\<close> stores, and
  \<open>Some t\<close> points to a tag whose fields are \<open>t\<close>.
\<close>

record Arc =
  distance :: double
  from_tag :: "Tag option"
  from_twist :: double
  goodness :: double
  in_tree :: bool
  to_tag :: "Tag option"
  to_twist :: double
  visit :: uint

text \<open>
  How a call can end without a value: an \<open>assert\<close> that fails (assertions are compiled
  in), a null tag that is dereferenced, a lookup in the map that finds nothing.
\<close>

datatype error = Assertion_Failed | Null_Dereference | Lookup_Failed

text \<open>
  Modelled from the spec: \<open>Tag__arc_append\<close>, \<open>Map__arc_append\<close> and \<open>SVG__line\<close>
  are declared in Tag.hpp, Map.hpp and SVG.hpp and their code is not in Arc.cpp. In the
  spec the first two register an edge in the list of a node and in the list of the owning
  collection, and the third is the line-drawing primitive that takes two positions and a
  color token. Arc.cpp never reads these lists back, so the model keeps each call with
  its arguments.
\<close>

datatype call =
    Tag__arc_append Tag Arc
  | Map__arc_append Arc
  | SVG__line double double double double string

section \<open>Tags\<close>

text \<open>
  Modelled from the spec: \<open>Tag__equal\<close> is declared in Tag.hpp and its code is not in
  Arc.cpp. The spec has two nodes compared by identity, the unique integer id, so the
  result is the equality of the two ids, read through the two pointers.
\<close>

definition Tag__equal :: "Tag option \<Rightarrow> Tag option \<Rightarrow> error + bool" where
  "Tag__equal tag1 tag2 =
     (case tag1 of None \<Rightarrow> Inl Null_Dereference
      | Some t1 \<Rightarrow>
          (case tag2 of None \<Rightarrow> Inl Null_Dereference
           | Some t2 \<Rightarrow> Inr (id_tag t1 = id_tag t2)))"

text \<open>
  Modelled from the spec: \<open>Tag__less\<close> is declared in Tag.hpp and its code is not in
  Arc.cpp. Nodes are ordered by identity in the spec, so the result is the order of the
  two ids, read through the two pointers.
\<close>

definition Tag__less :: "Tag option \<Rightarrow> Tag option \<Rightarrow> error + bool" where
  "Tag__less tag1 tag2 =
     (case tag1 of None \<Rightarrow> Inl Null_Dereference
      | Some t1 \<Rightarrow>
          (case tag2 of None \<Rightarrow> Inl Null_Dereference
           | Some t2 \<Rightarrow> Inr (id_tag t1 < id_tag t2)))"

section \<open>The operations of Arc.cpp\<close>

text \<open>
  The functions of Arc.cpp, but for \<open>Arc__free\<close>, which releases the storage of an
  arc. \<open>Arc__read\<close> and \<open>Arc__write\<close> come last, with the attributes of the file.
\<close>

text \<open>\<open>Arc__equal\<close>: the second comparison runs only when the first is true.\<close>

definition Arc__equal :: "Arc \<Rightarrow> Arc \<Rightarrow> error + bool" where
  "Arc__equal arc1 arc2 =
     (case Tag__equal (from_tag arc1) (from_tag arc2) of
        Inl e \<Rightarrow> Inl e
      | Inr b \<Rightarrow> if b then Tag__equal (to_tag arc1) (to_tag arc2) else Inr False)"

definition Arc__less :: "Arc \<Rightarrow> Arc \<Rightarrow> error + bool" where
  "Arc__less arc1 arc2 =
     (case Tag__less (from_tag arc1) (from_tag arc2) of
        Inl e \<Rightarrow> Inl e
      | Inr l \<Rightarrow>
          if l then Inr True
          else (case Tag__equal (from_tag arc1) (from_tag arc2) of
                  Inl e \<Rightarrow> Inl e
                | Inr b \<Rightarrow>
                    if b then Tag__less (to_tag arc1) (to_tag arc2) else Inr False))"

text \<open>\<open>Arc__new\<close>: the argument is the label of the allocation.\<close>

definition Arc__new :: "string \<Rightarrow> Arc" where
  "Arc__new from_label =
     \<lparr> distance = - 1,
       from_tag = None,
       from_twist = 0,
       goodness = 123456789,
       in_tree = False,
       to_tag = None,
       to_twist = 0,
       visit = 0 \<rparr>"

text \<open>
  \<open>Arc__create\<close>: the swap, the stores into the new arc, and the three calls that
  register it, in their order. The result is the arc with these calls. The map of the
  third call is the map of the low tag; the model has one map.
\<close>

definition Arc__create ::
  "Tag \<Rightarrow> double \<Rightarrow> double \<Rightarrow> Tag \<Rightarrow> double \<Rightarrow> double \<Rightarrow> Arc \<times> call list" where
  "Arc__create from_tag0 from_twist0 distance0 to_tag0 to_twist0 goodness0 =
     (let swap = id_tag from_tag0 > id_tag to_tag0;
          from_tag1 = (if swap then to_tag0 else from_tag0);
          to_tag1 = (if swap then from_tag0 else to_tag0);
          from_twist1 = (if swap then to_twist0 else from_twist0);
          to_twist1 = (if swap then from_twist0 else to_twist0);
          arc = (Arc__new ''Arc__create:Arc__new:arc'')
                  \<lparr> distance := distance0,
                    from_tag := Some from_tag1,
                    from_twist := from_twist1,
                    goodness := goodness0,
                    to_tag := Some to_tag1,
                    to_twist := to_twist1 \<rparr>
      in (arc, [Tag__arc_append from_tag1 arc, Tag__arc_append to_tag1 arc,
                Map__arc_append arc]))"

text \<open>
  \<open>Arc__distance_less\<close>: the hop counts are read only when the two distances are equal.
\<close>

definition Arc__distance_less :: "Arc \<Rightarrow> Arc \<Rightarrow> error + bool" where
  "Arc__distance_less arc1 arc2 =
     (if distance arc1 > distance arc2 then Inr True
      else if distance arc1 = distance arc2 then
        (case (from_tag arc1, to_tag arc1, from_tag arc2, to_tag arc2) of
           (Some f1, Some t1, Some f2, Some t2) \<Rightarrow>
             (let arc1_lowest_hop_count = min (hop_count f1) (hop_count t1);
                  arc2_lowest_hop_count = min (hop_count f2) (hop_count t2)
              in if arc1_lowest_hop_count > arc2_lowest_hop_count then Inr True
                 else Inr False)
         | _ \<Rightarrow> Inl Null_Dereference)
      else Inr False)"

text \<open>
  \<open>Arc__update\<close>: the two assertions and the four stores. A failed assertion ends the
  program, so the store between the two assertions is never seen without the others.
\<close>

definition Arc__update :: "Arc \<Rightarrow> double \<Rightarrow> double \<Rightarrow> double \<Rightarrow> double \<Rightarrow> error + Arc" where
  "Arc__update arc from_twist0 distance0 to_twist0 goodness0 =
     (case (from_tag arc, to_tag arc) of
        (Some f, Some t) \<Rightarrow>
          if \<not> id_tag f < id_tag t then Inl Assertion_Failed
          else if \<not> distance0 > 0 then Inl Assertion_Failed
          else Inr (arc \<lparr> from_twist := from_twist0,
                          distance := distance0,
                          goodness := goodness0,
                          to_twist := to_twist0 \<rparr>)
      | _ \<Rightarrow> Inl Null_Dereference)"

text \<open>
  \<open>Arc__svg_write\<close>: the drawing is the list of the calls made on it so far, and the
  arc adds one line.
\<close>

definition Arc__svg_write :: "Arc \<Rightarrow> call list \<Rightarrow> error + call list" where
  "Arc__svg_write arc svg =
     (case (from_tag arc, to_tag arc) of
        (Some f, Some t) \<Rightarrow>
          (let color = (if in_tree arc then ''red'' else ''green'')
           in Inr (svg @ [SVG__line (x_tag f) (y_tag f) (x_tag t) (y_tag t) color]))
      | _ \<Rightarrow> Inl Null_Dereference)"

section \<open>Reading and writing an arc\<close>

text \<open>
  The seven attributes of an \<open><Arc .../>\<close> element, as the readers of File.hpp return
  them: the two ids and the flag as integers, the other four as doubles.
\<close>

record Arc_attributes =
  From_Tag_Id :: int
  From_Twist :: double
  Distance :: double
  To_Tag_Id :: int
  To_Twist :: double
  Goodness :: double
  In_Tree :: int

text \<open>
  The part of the map that \<open>Arc__read\<close> works on: the tags by id, the arcs by the pair of
  the ids of their tags, and the announcements made so far.
\<close>

record Map_t =
  tags_table :: "uint \<rightharpoonup> Tag"
  arcs_table :: "uint \<times> uint \<rightharpoonup> Arc"
  announced :: "Arc list"

text \<open>
  Modelled from the spec: \<open>Map__tag_lookup\<close> is declared in Map.hpp and its code is not
  in Arc.cpp. In the spec the lookup of a node by id fails if the node is absent.
\<close>

definition Map__tag_lookup :: "Map_t \<Rightarrow> uint \<Rightarrow> error + Tag" where
  "Map__tag_lookup map0 tag_id =
     (case tags_table map0 tag_id of None \<Rightarrow> Inl Lookup_Failed | Some t \<Rightarrow> Inr t)"

text \<open>The unordered pair of two tags, as the pair of their ids with the smaller first.\<close>

definition arc_key :: "Tag \<Rightarrow> Tag \<Rightarrow> uint \<times> uint" where
  "arc_key tag1 tag2 =
     (if id_tag tag1 > id_tag tag2 then (id_tag tag2, id_tag tag1)
      else (id_tag tag1, id_tag tag2))"

text \<open>
  Modelled from the spec: \<open>Map__arc_lookup\<close> is declared in Map.hpp and its code is not
  in Arc.cpp. In the spec the lookup of an edge is by the unordered pair of its nodes. The
  spec gives no values for a pair that has no edge yet, so the model stops there.
\<close>

definition Map__arc_lookup :: "Map_t \<Rightarrow> Tag \<Rightarrow> Tag \<Rightarrow> error + Arc" where
  "Map__arc_lookup map0 tag1 tag2 =
     (case arcs_table map0 (arc_key tag1 tag2) of
        None \<Rightarrow> Inl Lookup_Failed
      | Some a \<Rightarrow> Inr a)"

text \<open>
  Modelled from the spec: \<open>Map__arc_announce\<close> is declared in Map.hpp and its code is
  not in Arc.cpp. In the spec it is the notification hook of the owning graph, invoked
  with the edge that changed; the model keeps the edges announced, in their order.
\<close>

definition Map__arc_announce :: "Map_t \<Rightarrow> Arc \<Rightarrow> Map_t" where
  "Map__arc_announce map0 arc = map0 \<lparr> announced := announced map0 @ [arc] \<rparr>"

text \<open>
  \<open>Arc__read\<close>, from the attributes on: the casts, the conversion of the two twists,
  the three lookups and the load. The arc is an object of the map, so what the load
  stores is stored in the map's table too.
\<close>

definition Arc__read :: "Arc_attributes \<Rightarrow> Map_t \<Rightarrow> error + (Arc \<times> Map_t)" where
  "Arc__read in_file map0 =
     (let from_tag_id = (word_of_int (From_Tag_Id in_file) :: uint);
          to_tag_id = (word_of_int (To_Tag_Id in_file) :: uint);
          goodness0 = Goodness in_file;
          in_tree0 = (In_Tree in_file \<noteq> 0);
          pi0 = (3.14159265358979323846264 :: double);
          degrees_to_radians = pi0 / 180;
          from_twist0 = From_Twist in_file * degrees_to_radians;
          to_twist0 = To_Twist in_file * degrees_to_radians
      in case Map__tag_lookup map0 from_tag_id of
           Inl e \<Rightarrow> Inl e
         | Inr from_tag0 \<Rightarrow>
        (case Map__tag_lookup map0 to_tag_id of
           Inl e \<Rightarrow> Inl e
         | Inr to_tag0 \<Rightarrow>
        (case Map__arc_lookup map0 from_tag0 to_tag0 of
           Inl e \<Rightarrow> Inl e
         | Inr arc \<Rightarrow>
             if goodness arc > goodness0 then
               (case Arc__update arc from_twist0 (Distance in_file) to_twist0 goodness0 of
                  Inl e \<Rightarrow> Inl e
                | Inr arc1 \<Rightarrow>
                    (let arc2 = arc1 \<lparr> in_tree := in_tree0 \<rparr>;
                         map1 = map0 \<lparr> arcs_table :=
                                  (arcs_table map0)(arc_key from_tag0 to_tag0 \<mapsto> arc2) \<rparr>
                     in Inr (arc2, Map__arc_announce map1 arc2)))
             else Inr (arc, map0))))"



section \<open>Example data\<close>

text \<open>
  The scenario of the spec: the nodes 2 and 5, the edge created from node 5 to node 2 with
  distance 2 and quality 50, a map that holds the two nodes and this edge, a record of
  quality 80 and a record of quality 10 and distance 1.5 for the same pair of nodes.
\<close>

definition tag2 :: Tag where
  "tag2 = \<lparr> id_tag = 2, hop_count = 1, x_tag = 0, y_tag = 0 \<rparr>"

definition tag5 :: Tag where
  "tag5 = \<lparr> id_tag = 5, hop_count = 3, x_tag = 3, y_tag = 4 \<rparr>"

definition arc25 :: Arc where
  "arc25 = \<lparr> distance = 2, from_tag = Some tag2, from_twist = 1 / 4,
             goodness = 50, in_tree = False, to_tag = Some tag5, to_twist = 1 / 2,
             visit = 0 \<rparr>"

definition map25 :: Map_t where
  "map25 = \<lparr> tags_table = [2 \<mapsto> tag2, 5 \<mapsto> tag5],
             arcs_table = [(2, 5) \<mapsto> arc25],
             announced = [] \<rparr>"

definition record80 :: Arc_attributes where
  "record80 = \<lparr> From_Tag_Id = 2, From_Twist = 90, Distance = 3, To_Tag_Id = 5,
                To_Twist = 180, Goodness = 80, In_Tree = 1 \<rparr>"

definition record10 :: Arc_attributes where
  "record10 = \<lparr> From_Tag_Id = 2, From_Twist = 90, Distance = 3 / 2, To_Tag_Id = 5,
                To_Twist = 180, Goodness = 10, In_Tree = 1 \<rparr>"

text \<open>The edge and the map that the record of quality 10 leaves.\<close>

definition arc25_loaded :: Arc where
  "arc25_loaded =
     \<lparr> distance = 3 / 2, from_tag = Some tag2,
       from_twist = 90 * (3.14159265358979323846264 / 180),
       goodness = 10, in_tree = True, to_tag = Some tag5,
       to_twist = 180 * (3.14159265358979323846264 / 180),
       visit = 0 \<rparr>"

definition map25_loaded :: Map_t where
  "map25_loaded = \<lparr> tags_table = [2 \<mapsto> tag2, 5 \<mapsto> tag5],
                    arcs_table = [(2, 5) \<mapsto> arc25_loaded],
                    announced = [arc25_loaded] \<rparr>"

text \<open>The same edge after a direct update with twists 1/8 and 3/8.\<close>

definition arc25_updated :: Arc where
  "arc25_updated = \<lparr> distance = 3 / 2, from_tag = Some tag2, from_twist = 1 / 8,
                     goodness = 10, in_tree = False, to_tag = Some tag5, to_twist = 3 / 8,
                     visit = 0 \<rparr>"

text \<open>
  Two more nodes, the second at the position of node 5, and three more edges: two of the
  length of the first edge, and one whose tags are stored in the wrong order.
\<close>

definition tag3 :: Tag where
  "tag3 = \<lparr> id_tag = 3, hop_count = 0, x_tag = 1, y_tag = 1 \<rparr>"

definition tag7 :: Tag where
  "tag7 = \<lparr> id_tag = 7, hop_count = 2, x_tag = 3, y_tag = 4 \<rparr>"

definition arc27 :: Arc where
  "arc27 = \<lparr> distance = 2, from_tag = Some tag2, from_twist = 0,
             goodness = 5, in_tree = False, to_tag = Some tag7, to_twist = 1,
             visit = 1 \<rparr>"

definition arc57 :: Arc where
  "arc57 = \<lparr> distance = 2, from_tag = Some tag5, from_twist = 1 / 3,
             goodness = 20, in_tree = True, to_tag = Some tag7, to_twist = 2 / 3,
             visit = 0 \<rparr>"

definition arc52 :: Arc where
  "arc52 = \<lparr> distance = 2, from_tag = Some tag5, from_twist = 1 / 2,
             goodness = 50, in_tree = False, to_tag = Some tag2, to_twist = 1 / 4,
             visit = 0 \<rparr>"












section \<open>Facts about the operations\<close>

lemma Tag__equal_Some [simp]:
  "Tag__equal (Some a) (Some b) = Inr (id_tag a = id_tag b)"
  by (simp add: Tag__equal_def)

lemma Tag__less_Some [simp]:
  "Tag__less (Some a) (Some b) = Inr (id_tag a < id_tag b)"
  by (simp add: Tag__less_def)

text \<open>The two comparisons of arcs, when all four tags are set, and when they are true.\<close>

lemma Arc__less_tags:
  "from_tag a = Some fa \<Longrightarrow> to_tag a = Some ta \<Longrightarrow>
   from_tag b = Some fb \<Longrightarrow> to_tag b = Some tb \<Longrightarrow>
   Arc__less a b =
     Inr (id_tag fa < id_tag fb \<or> (id_tag fa = id_tag fb \<and> id_tag ta < id_tag tb))"
  by (auto simp: Arc__less_def)

lemma Arc__less_True:
  "Arc__less a b = Inr True \<longleftrightarrow>
     (\<exists>fa fb. from_tag a = Some fa \<and> from_tag b = Some fb \<and>
        (id_tag fa < id_tag fb \<or>
         (id_tag fa = id_tag fb \<and>
          (\<exists>ta tb. to_tag a = Some ta \<and> to_tag b = Some tb \<and> id_tag ta < id_tag tb))))"
  by (cases "from_tag a"; cases "from_tag b"; cases "to_tag a"; cases "to_tag b")
     (auto simp: Arc__less_def Tag__less_def Tag__equal_def)

lemma Arc__less_trans:
  "Arc__less a b = Inr True \<Longrightarrow> Arc__less b c = Inr True \<Longrightarrow> Arc__less a c = Inr True"
  by (cases "from_tag a"; cases "from_tag b"; cases "from_tag c";
      cases "to_tag a"; cases "to_tag b"; cases "to_tag c")
     (auto simp: Arc__less_def Tag__less_def Tag__equal_def split: if_splits)

lemma Arc__equal_tags:
  "from_tag a = Some fa \<Longrightarrow> to_tag a = Some ta \<Longrightarrow>
   from_tag b = Some fb \<Longrightarrow> to_tag b = Some tb \<Longrightarrow>
   Arc__equal a b = Inr (id_tag fa = id_tag fb \<and> id_tag ta = id_tag tb)"
  by (auto simp: Arc__equal_def)

lemma Arc__equal_True:
  "Arc__equal a b = Inr True \<longleftrightarrow>
     (\<exists>fa fb ta tb. from_tag a = Some fa \<and> from_tag b = Some fb \<and>
         to_tag a = Some ta \<and> to_tag b = Some tb \<and>
         id_tag fa = id_tag fb \<and> id_tag ta = id_tag tb)"
  by (cases "from_tag a"; cases "from_tag b"; cases "to_tag a"; cases "to_tag b")
     (auto simp: Arc__equal_def Tag__less_def Tag__equal_def)

text \<open>The arc that \<open>Arc__create\<close> returns, field by field.\<close>

lemma Arc__create_fst:
  "fst (Arc__create ta wa d tb wb q) =
     \<lparr> distance = d,
       from_tag = Some (if id_tag tb < id_tag ta then tb else ta),
       from_twist = (if id_tag tb < id_tag ta then wb else wa),
       goodness = q, in_tree = False,
       to_tag = Some (if id_tag tb < id_tag ta then ta else tb),
       to_twist = (if id_tag tb < id_tag ta then wa else wb),
       visit = 0 \<rparr>"
  by (simp add: Arc__create_def Arc__new_def Let_def)

lemma Arc__update_Inr:
  "Arc__update a w1 d w2 g = Inr a' \<longleftrightarrow>
     (\<exists>lo hi. from_tag a = Some lo \<and> to_tag a = Some hi \<and> id_tag lo < id_tag hi \<and> 0 < d \<and>
        a' = a \<lparr> from_twist := w1, distance := d, goodness := g, to_twist := w2 \<rparr>)"
  by (cases "from_tag a"; cases "to_tag a") (auto simp: Arc__update_def)

lemma Arc__update_tags:
  "from_tag a = Some lo \<Longrightarrow> to_tag a = Some hi \<Longrightarrow>
   Arc__update a w1 d w2 g =
     (if id_tag lo < id_tag hi \<and> 0 < d
      then Inr (a \<lparr> from_twist := w1, distance := d, goodness := g, to_twist := w2 \<rparr>)
      else Inl Assertion_Failed)"
  by (simp add: Arc__update_def)

text \<open>What \<open>Arc__read\<close> does once its three lookups have found the two tags and the arc.\<close>

lemma Arc__read_load:
  assumes "Map__tag_lookup m (word_of_int (From_Tag_Id r)) = Inr ft"
      and "Map__tag_lookup m (word_of_int (To_Tag_Id r)) = Inr tt"
      and "Map__arc_lookup m ft tt = Inr a"
  shows "Arc__read r m =
     (if goodness a > Goodness r then
        (case Arc__update a (From_Twist r * (3.14159265358979323846264 / 180)) (Distance r)
                (To_Twist r * (3.14159265358979323846264 / 180)) (Goodness r) of
           Inl e \<Rightarrow> Inl e
         | Inr a1 \<Rightarrow>
             Inr (a1 \<lparr> in_tree := In_Tree r \<noteq> 0 \<rparr>,
                  m \<lparr> arcs_table :=
                        (arcs_table m)(arc_key ft tt \<mapsto> a1 \<lparr> in_tree := In_Tree r \<noteq> 0 \<rparr>),
                      announced := announced m @ [a1 \<lparr> in_tree := In_Tree r \<noteq> 0 \<rparr>] \<rparr>))
      else Inr (a, m))"
  using assms by (simp add: Arc__read_def Let_def Map__arc_announce_def split: sum.splits)







subsection \<open>The example data\<close>

lemma map25_lookups:
  "Map__tag_lookup map25 (word_of_int (From_Tag_Id record80)) = Inr tag2"
  "Map__tag_lookup map25 (word_of_int (To_Tag_Id record80)) = Inr tag5"
  "Map__tag_lookup map25 (word_of_int (From_Tag_Id record10)) = Inr tag2"
  "Map__tag_lookup map25 (word_of_int (To_Tag_Id record10)) = Inr tag5"
  "Map__arc_lookup map25 tag2 tag5 = Inr arc25"
  by (simp_all add: Map__tag_lookup_def Map__arc_lookup_def arc_key_def map25_def
        record80_def record10_def tag2_def tag5_def)

lemma Arc__read_record80: "Arc__read record80 map25 = Inr (arc25, map25)"
  by (subst Arc__read_load [OF map25_lookups(1,2,5)]) (simp add: record80_def arc25_def)

lemma Arc__read_record10: "Arc__read record10 map25 = Inr (arc25_loaded, map25_loaded)"
  by (subst Arc__read_load [OF map25_lookups(3,4,5)])
     (simp add: Arc__update_def arc_key_def record10_def arc25_def arc25_loaded_def
        map25_loaded_def map25_def tag2_def tag5_def)

lemma Arc__update_arc25:
  "Arc__update arc25 (1 / 8) (3 / 2) (3 / 8) 10 = Inr arc25_updated"
  by (simp add: Arc__update_def arc25_def arc25_updated_def tag2_def tag5_def)

lemma arc25_tags:
  "from_tag arc25 = Some tag2" "to_tag arc25 = Some tag5" "id_tag tag2 < id_tag tag5"
  by (simp_all add: arc25_def tag2_def tag5_def)

lemma example_tags:
  "from_tag arc27 = Some tag2" "to_tag arc27 = Some tag7"
  "from_tag arc57 = Some tag5" "to_tag arc57 = Some tag7"
  "from_tag arc52 = Some tag5" "to_tag arc52 = Some tag2"
  "from_tag arc25_updated = Some tag2" "to_tag arc25_updated = Some tag5"
  by (simp_all add: arc27_def arc57_def arc52_def arc25_updated_def)

lemma example_ids:
  "id_tag tag2 = 2" "id_tag tag5 = 5" "id_tag tag7 = 7"
  by (simp_all add: tag2_def tag5_def tag7_def)

















section \<open>The quality gate of the load\<close>

text \<open>
  C1. The load of \<open>Arc__read\<close> is the merge: it calls \<open>Arc__update\<close> only when the
  quality of the record is strictly smaller than the quality stored in the edge. For every
  edge \<open>a\<close> that the map holds for the two tags of the record \<open>r\<close>: when the quality of
  the record is not smaller, the call returns the edge and the map as they were, so no
  field changes; whenever the call returns, the stored quality is the minimum of the old
  quality and the quality of the record; and when the quality of the record is smaller,
  the tags of the edge are in order and the distance of the record is positive, the call
  does return, with the quality of the record stored.
\<close>

theorem Arc__read_keeps_best_quality:
  assumes "Map__tag_lookup m (word_of_int (From_Tag_Id r)) = Inr ft"
      and "Map__tag_lookup m (word_of_int (To_Tag_Id r)) = Inr tt"
      and "Map__arc_lookup m ft tt = Inr a"
  shows "(goodness a \<le> Goodness r \<longrightarrow> Arc__read r m = Inr (a, m))
       \<and> (\<forall>a' m'. Arc__read r m = Inr (a', m') \<longrightarrow>
             goodness a' = min (goodness a) (Goodness r))
       \<and> (Goodness r < goodness a \<longrightarrow> from_tag a = Some lo \<longrightarrow> to_tag a = Some hi \<longrightarrow>
             id_tag lo < id_tag hi \<longrightarrow> 0 < Distance r \<longrightarrow>
             (\<exists>a' m'. Arc__read r m = Inr (a', m') \<and> goodness a' = Goodness r))"
proof (intro conjI impI allI)
  assume "goodness a \<le> Goodness r"
  then show "Arc__read r m = Inr (a, m)"
    by (simp add: Arc__read_load [OF assms])
next
  fix a' m'
  assume res: "Arc__read r m = Inr (a', m')"
  show "goodness a' = min (goodness a) (Goodness r)"
  proof (cases "Goodness r < goodness a")
    case True
    with res obtain a1 where
      "Arc__update a (From_Twist r * (3.14159265358979323846264 / 180)) (Distance r)
         (To_Twist r * (3.14159265358979323846264 / 180)) (Goodness r) = Inr a1"
      and "a' = a1 \<lparr> in_tree := In_Tree r \<noteq> 0 \<rparr>"
      by (auto simp: Arc__read_load [OF assms] split: sum.splits)
    then have "goodness a' = Goodness r"
      by (auto simp: Arc__update_Inr)
    with True show ?thesis by simp
  next
    case False
    with res have "a' = a"
      by (simp add: Arc__read_load [OF assms])
    with False show ?thesis by simp
  qed
next
  assume "Goodness r < goodness a" "from_tag a = Some lo" "to_tag a = Some hi"
    "id_tag lo < id_tag hi" "0 < Distance r"
  then show "\<exists>a' m'. Arc__read r m = Inr (a', m') \<and> goodness a' = Goodness r"
    by (simp add: Arc__read_load [OF assms] Arc__update_tags)
qed

text \<open>
  The scenario of the spec: the edge of quality 50 is offered quality 80 and nothing
  changes; it is offered quality 10 with distance 1.5 and holds quality 10 afterwards.
\<close>

theorem Arc__read_keeps_best_quality_witness:
  "Map__tag_lookup map25 (word_of_int (From_Tag_Id record80)) = Inr tag2
   \<and> Map__tag_lookup map25 (word_of_int (To_Tag_Id record80)) = Inr tag5
   \<and> Map__tag_lookup map25 (word_of_int (From_Tag_Id record10)) = Inr tag2
   \<and> Map__tag_lookup map25 (word_of_int (To_Tag_Id record10)) = Inr tag5
   \<and> Map__arc_lookup map25 tag2 tag5 = Inr arc25
   \<and> goodness arc25 \<le> Goodness record80
   \<and> Arc__read record80 map25 = Inr (arc25, map25)
   \<and> Goodness record10 < goodness arc25
   \<and> from_tag arc25 = Some tag2 \<and> to_tag arc25 = Some tag5
   \<and> id_tag tag2 < id_tag tag5 \<and> 0 < Distance record10
   \<and> Arc__read record10 map25 = Inr (arc25_loaded, map25_loaded)
   \<and> goodness arc25_loaded = min (goodness arc25) (Goodness record10)"
proof -
  note w80 = Arc__read_keeps_best_quality [OF map25_lookups(1,2,5), of tag2 tag5]
  note w10 = Arc__read_keeps_best_quality [OF map25_lookups(3,4,5), of tag2 tag5]
  have g80: "goodness arc25 \<le> Goodness record80"
    by (simp add: arc25_def record80_def)
  have r80: "Arc__read record80 map25 = Inr (arc25, map25)"
    using w80 g80 by blast
  have g10: "Goodness record10 < goodness arc25" "0 < Distance record10"
    by (simp_all add: arc25_def record10_def)
  have m10: "goodness arc25_loaded = min (goodness arc25) (Goodness record10)"
    using w10 Arc__read_record10 by blast
  show ?thesis
    using map25_lookups g80 r80 g10 arc25_tags Arc__read_record10 m10 by simp
qed

section \<open>Canonical orientation\<close>

text \<open>
  C2, as the code has it. For every two nodes with different ids and all twists, distance
  and quality, the edge that \<open>Arc__create\<close> returns has a low node whose id is strictly
  smaller than the id of its high node, and the call with the two nodes and their twists
  swapped returns the same edge and makes the same three registrations. With equal ids
  the comparison \<open>from_tag->id > to_tag->id\<close> is false, nothing is swapped, and
  neither part holds.
\<close>

theorem Arc__create_canonical_distinct_ids:
  assumes "id_tag ta \<noteq> id_tag tb"
  shows "(\<exists>lo hi. from_tag (fst (Arc__create ta wa d tb wb q)) = Some lo \<and>
                  to_tag (fst (Arc__create ta wa d tb wb q)) = Some hi \<and>
                  id_tag lo < id_tag hi)
       \<and> Arc__create tb wb d ta wa q = Arc__create ta wa d tb wb q"
proof -
  from assms consider "id_tag ta < id_tag tb" | "id_tag tb < id_tag ta"
    by (auto simp: neq_iff)
  then show ?thesis
  proof cases
    case 1
    then have "\<not> id_tag tb < id_tag ta" by simp
    with 1 show ?thesis by (simp add: Arc__create_def Arc__new_def Let_def)
  next
    case 2
    then have "\<not> id_tag ta < id_tag tb" by simp
    with 2 show ?thesis by (simp add: Arc__create_def Arc__new_def Let_def)
  qed
qed

text \<open>
  The scenario of the spec: created from node 5 with twist 1/2 to node 2 with twist 1/4,
  the edge has node 2 with twist 1/4 as its low end and node 5 with twist 1/2 as its high
  end, and so has the edge created from node 2 to node 5.
\<close>

theorem Arc__create_canonical_distinct_ids_witness:
  "id_tag tag5 \<noteq> id_tag tag2
   \<and> from_tag (fst (Arc__create tag5 (1 / 2) 2 tag2 (1 / 4) 50)) = Some tag2
   \<and> to_tag (fst (Arc__create tag5 (1 / 2) 2 tag2 (1 / 4) 50)) = Some tag5
   \<and> id_tag tag2 < id_tag tag5
   \<and> from_twist (fst (Arc__create tag5 (1 / 2) 2 tag2 (1 / 4) 50)) = 1 / 4
   \<and> to_twist (fst (Arc__create tag5 (1 / 2) 2 tag2 (1 / 4) 50)) = 1 / 2
   \<and> fst (Arc__create tag5 (1 / 2) 2 tag2 (1 / 4) 50) = arc25
   \<and> Arc__create tag2 (1 / 4) 2 tag5 (1 / 2) 50 = Arc__create tag5 (1 / 2) 2 tag2 (1 / 4) 50"
proof -
  have h: "id_tag tag5 \<noteq> id_tag tag2"
    by (simp add: example_ids)
  have e: "fst (Arc__create tag5 (1 / 2) 2 tag2 (1 / 4) 50) = arc25"
    by (simp add: Arc__create_fst example_ids arc25_def)
  show ?thesis
    using h e arc25_tags
      Arc__create_canonical_distinct_ids [OF h, of "1 / 2" 2 "1 / 4" 50]
    by (simp add: arc25_def)
qed

text \<open>
  One node given as both ends, with twists 1 and 2: both tags of the edge are this node,
  so the id of the low node is not smaller than the id of the high node, and the call with
  the twists swapped returns a different edge.
\<close>

theorem Arc__create_same_id_counterexample:
  "from_tag (fst (Arc__create tag3 1 2 tag3 2 50)) = Some tag3
   \<and> to_tag (fst (Arc__create tag3 1 2 tag3 2 50)) = Some tag3
   \<and> \<not> id_tag tag3 < id_tag tag3
   \<and> fst (Arc__create tag3 2 2 tag3 1 50) \<noteq> fst (Arc__create tag3 1 2 tag3 2 50)"
  by (simp add: Arc__create_fst)

section \<open>The distance of an edge\<close>

text \<open>
  C3, as the code has it. The distance of an edge is strictly positive after every
  \<open>Arc__update\<close> that returns, since the update stores only a distance that passed its
  assertion; \<open>Arc__create\<close> stores the distance it is given, so the new edge has a
  strictly positive distance whenever the argument is strictly positive; and \<open>Arc__read\<close>
  returns an edge of strictly positive distance whenever the edge it found had one. The
  constructors themselves do not establish it: \<open>Arc__new\<close> stores the distance -1 and
  \<open>Arc__create\<close> does not check its argument.
\<close>

theorem distance_positive_once_loaded:
  "(Arc__update a w1 d w2 g = Inr a1 \<longrightarrow> 0 < distance a1)
   \<and> (0 < d \<longrightarrow> 0 < distance (fst (Arc__create ta wa d tb wb q)))
   \<and> (Map__tag_lookup m (word_of_int (From_Tag_Id r)) = Inr ft \<longrightarrow>
      Map__tag_lookup m (word_of_int (To_Tag_Id r)) = Inr tt \<longrightarrow>
      Map__arc_lookup m ft tt = Inr a \<longrightarrow>
      0 < distance a \<longrightarrow> Arc__read r m = Inr (a2, m2) \<longrightarrow> 0 < distance a2)"
proof (intro conjI impI)
  assume "Arc__update a w1 d w2 g = Inr a1"
  then show "0 < distance a1" by (auto simp: Arc__update_Inr)
next
  assume "0 < d"
  then show "0 < distance (fst (Arc__create ta wa d tb wb q))"
    by (simp add: Arc__create_fst)
next
  assume l: "Map__tag_lookup m (word_of_int (From_Tag_Id r)) = Inr ft"
    "Map__tag_lookup m (word_of_int (To_Tag_Id r)) = Inr tt"
    "Map__arc_lookup m ft tt = Inr a"
    and pos: "0 < distance a" and res: "Arc__read r m = Inr (a2, m2)"
  show "0 < distance a2"
  proof (cases "Goodness r < goodness a")
    case True
    with res obtain a1 where
      "Arc__update a (From_Twist r * (3.14159265358979323846264 / 180)) (Distance r)
         (To_Twist r * (3.14159265358979323846264 / 180)) (Goodness r) = Inr a1"
      and "a2 = a1 \<lparr> in_tree := In_Tree r \<noteq> 0 \<rparr>"
      by (auto simp: Arc__read_load [OF l] split: sum.splits)
    then show ?thesis by (auto simp: Arc__update_Inr)
  next
    case False
    with res have "a2 = a" by (simp add: Arc__read_load [OF l])
    with pos show ?thesis by simp
  qed
qed

text \<open>
  The edge of the scenario, updated with distance 1.5, created with distance 1.5, and
  loaded from the record of quality 10.
\<close>

theorem distance_positive_once_loaded_witness:
  "Arc__update arc25 (1 / 8) (3 / 2) (3 / 8) 10 = Inr arc25_updated
   \<and> 0 < distance arc25_updated
   \<and> (0 :: double) < 3 / 2
   \<and> 0 < distance (fst (Arc__create tag5 (1 / 2) (3 / 2) tag2 (1 / 4) 50))
   \<and> Map__tag_lookup map25 (word_of_int (From_Tag_Id record10)) = Inr tag2
   \<and> Map__tag_lookup map25 (word_of_int (To_Tag_Id record10)) = Inr tag5
   \<and> Map__arc_lookup map25 tag2 tag5 = Inr arc25
   \<and> 0 < distance arc25
   \<and> Arc__read record10 map25 = Inr (arc25_loaded, map25_loaded)
   \<and> 0 < distance arc25_loaded"
proof -
  note w = distance_positive_once_loaded
    [where a = arc25 and ?w1.0 = "1 / 8" and d = "3 / 2" and ?w2.0 = "3 / 8" and g = 10
       and ?a1.0 = arc25_updated and ta = tag5 and wa = "1 / 2" and tb = tag2
       and wb = "1 / 4" and q = 50 and m = map25 and r = record10 and ft = tag2
       and tt = tag5 and ?a2.0 = arc25_loaded and ?m2.0 = map25_loaded]
  have p: "0 < distance arc25" by (simp add: arc25_def)
  have u: "0 < distance arc25_updated"
    using w Arc__update_arc25 by blast
  have c: "0 < distance (fst (Arc__create tag5 (1 / 2) (3 / 2) tag2 (1 / 4) 50))"
    using w by simp
  have r: "0 < distance arc25_loaded"
    using w map25_lookups(3,4,5) p Arc__read_record10 by blast
  show ?thesis
    using Arc__update_arc25 u c map25_lookups(3,4,5) p Arc__read_record10 r by simp
qed

text \<open>
  A new arc has the distance -1, and an edge created with the distance 0 has the
  distance 0.
\<close>

theorem distance_sentinel_counterexample:
  "distance (Arc__new ''Arc__create:Arc__new:arc'') = - 1
   \<and> \<not> 0 < distance (Arc__new ''Arc__create:Arc__new:arc'')
   \<and> \<not> 0 < distance (fst (Arc__create tag2 0 0 tag5 0 123456789))"
  by (simp add: Arc__create_fst Arc__new_def)

section \<open>The order that grows the spanning tree\<close>

text \<open>
  C4. For every two edges whose tags are set, \<open>Arc__distance_less\<close> returns true if and
  only if the first edge has the larger distance, or the distances are equal and the
  smaller hop count of the two ends of the first edge is larger than the smaller hop count
  of the two ends of the second. Nothing else is compared: two edges of equal distance and
  equal smaller hop count are not ordered, in either direction.
\<close>

theorem Arc__distance_less_rule:
  assumes "from_tag e1 = Some f1" and "to_tag e1 = Some t1"
      and "from_tag e2 = Some f2" and "to_tag e2 = Some t2"
  shows "Arc__distance_less e1 e2 =
           Inr (distance e1 > distance e2 \<or>
                (distance e1 = distance e2 \<and>
                 min (hop_count f1) (hop_count t1) > min (hop_count f2) (hop_count t2)))
       \<and> (distance e1 = distance e2 \<longrightarrow>
            min (hop_count f1) (hop_count t1) = min (hop_count f2) (hop_count t2) \<longrightarrow>
            Arc__distance_less e1 e2 = Inr False \<and> Arc__distance_less e2 e1 = Inr False)"
  using assms by (simp add: Arc__distance_less_def Let_def)

text \<open>
  The edge of distance 2 comes before the edge of distance 1.5; of two edges of distance 2,
  the one whose ends have hop counts 3 and 2 comes before the one whose ends have hop
  counts 1 and 3; and the two edges of distance 2 whose smaller hop count is 1 are not
  ordered.
\<close>

theorem Arc__distance_less_rule_witness:
  "from_tag arc25 = Some tag2 \<and> to_tag arc25 = Some tag5
   \<and> from_tag arc25_updated = Some tag2 \<and> to_tag arc25_updated = Some tag5
   \<and> from_tag arc57 = Some tag5 \<and> to_tag arc57 = Some tag7
   \<and> from_tag arc27 = Some tag2 \<and> to_tag arc27 = Some tag7
   \<and> Arc__distance_less arc25 arc25_updated = Inr True
   \<and> Arc__distance_less arc25_updated arc25 = Inr False
   \<and> Arc__distance_less arc57 arc25 = Inr True
   \<and> Arc__distance_less arc25 arc57 = Inr False
   \<and> distance arc25 = distance arc27
   \<and> min (hop_count tag2) (hop_count tag5) = min (hop_count tag2) (hop_count tag7)
   \<and> Arc__distance_less arc25 arc27 = Inr False
   \<and> Arc__distance_less arc27 arc25 = Inr False"
proof -
  have d: "distance arc25 = 2" "distance arc25_updated = 3 / 2" "distance arc57 = 2"
    "distance arc27 = 2"
    by (simp_all add: arc25_def arc25_updated_def arc57_def arc27_def)
  have h: "hop_count tag2 = 1" "hop_count tag5 = 3" "hop_count tag7 = 2"
    by (simp_all add: tag2_def tag5_def tag7_def)
  have 1: "Arc__distance_less arc25 arc25_updated = Inr True"
    using Arc__distance_less_rule [OF arc25_tags(1,2) example_tags(7,8)] by (simp add: d)
  have 2: "Arc__distance_less arc25_updated arc25 = Inr False"
    using Arc__distance_less_rule [OF example_tags(7,8) arc25_tags(1,2)] by (simp add: d)
  have 3: "Arc__distance_less arc57 arc25 = Inr True"
    using Arc__distance_less_rule [OF example_tags(3,4) arc25_tags(1,2)] by (simp add: d h)
  have 4: "Arc__distance_less arc25 arc57 = Inr False"
    using Arc__distance_less_rule [OF arc25_tags(1,2) example_tags(3,4)] by (simp add: d h)
  have 5: "Arc__distance_less arc25 arc27 = Inr False
      \<and> Arc__distance_less arc27 arc25 = Inr False"
    using Arc__distance_less_rule [OF arc25_tags(1,2) example_tags(1,2)] by (simp add: d h)
  show ?thesis
    using arc25_tags example_tags 1 2 3 4 5 by (simp add: d h)
qed

section \<open>Identity: order and equality\<close>

text \<open>
  C6. \<open>Arc__less\<close> is the lexicographic order on the ids of the two tags: the ids of the
  low tags are compared first, and the ids of the high tags when the first are equal. It
  is a strict total order: no edge comes before itself, two edges never come before each
  other, the order is transitive, and of two edges whose pairs of ids differ one comes
  before the other. The result depends on the tags only, not on what was measured: two
  edges with the same tags as \<open>a\<close> and \<open>b\<close> compare as \<open>a\<close> and \<open>b\<close> do.
\<close>

theorem Arc__less_strict_total_order:
  "(from_tag a = Some fa \<longrightarrow> to_tag a = Some ta \<longrightarrow>
      from_tag b = Some fb \<longrightarrow> to_tag b = Some tb \<longrightarrow>
      Arc__less a b =
        Inr (id_tag fa < id_tag fb \<or> (id_tag fa = id_tag fb \<and> id_tag ta < id_tag tb)))
   \<and> Arc__less a a \<noteq> Inr True
   \<and> (Arc__less a b = Inr True \<longrightarrow> Arc__less b a \<noteq> Inr True)
   \<and> (Arc__less a b = Inr True \<longrightarrow> Arc__less b c = Inr True \<longrightarrow> Arc__less a c = Inr True)
   \<and> (from_tag a = Some fa \<longrightarrow> to_tag a = Some ta \<longrightarrow>
      from_tag b = Some fb \<longrightarrow> to_tag b = Some tb \<longrightarrow>
      (id_tag fa, id_tag ta) \<noteq> (id_tag fb, id_tag tb) \<longrightarrow>
      Arc__less a b = Inr True \<or> Arc__less b a = Inr True)
   \<and> (from_tag a' = from_tag a \<longrightarrow> to_tag a' = to_tag a \<longrightarrow>
      from_tag b' = from_tag b \<longrightarrow> to_tag b' = to_tag b \<longrightarrow>
      Arc__less a' b' = Arc__less a b)"
proof (intro conjI impI)
  assume "from_tag a = Some fa" "to_tag a = Some ta" "from_tag b = Some fb" "to_tag b = Some tb"
  then show "Arc__less a b =
    Inr (id_tag fa < id_tag fb \<or> (id_tag fa = id_tag fb \<and> id_tag ta < id_tag tb))"
    by (rule Arc__less_tags)
next
  show "Arc__less a a \<noteq> Inr True"
    by (auto simp: Arc__less_True)
next
  assume "Arc__less a b = Inr True"
  then show "Arc__less b a \<noteq> Inr True"
    by (auto simp: Arc__less_True)
next
  assume "Arc__less a b = Inr True" "Arc__less b c = Inr True"
  then show "Arc__less a c = Inr True"
    by (rule Arc__less_trans)
next
  assume "from_tag a = Some fa" "to_tag a = Some ta" "from_tag b = Some fb" "to_tag b = Some tb"
    "(id_tag fa, id_tag ta) \<noteq> (id_tag fb, id_tag tb)"
  then show "Arc__less a b = Inr True \<or> Arc__less b a = Inr True"
    by (auto simp: Arc__less_tags)
next
  assume "from_tag a' = from_tag a" "to_tag a' = to_tag a"
    "from_tag b' = from_tag b" "to_tag b' = to_tag b"
  then show "Arc__less a' b' = Arc__less a b"
    by (simp add: Arc__less_def split: sum.splits)
qed

text \<open>
  The edges (2, 5), (2, 7) and (5, 7) come in this order, and the edge (2, 5) with other
  measurements compares with (2, 7) as the edge (2, 5) does.
\<close>

theorem Arc__less_strict_total_order_witness:
  "from_tag arc25 = Some tag2 \<and> to_tag arc25 = Some tag5
   \<and> from_tag arc27 = Some tag2 \<and> to_tag arc27 = Some tag7
   \<and> Arc__less arc25 arc27 = Inr True
   \<and> Arc__less arc27 arc25 = Inr False
   \<and> Arc__less arc25 arc25 = Inr False
   \<and> Arc__less arc27 arc57 = Inr True
   \<and> Arc__less arc25 arc57 = Inr True
   \<and> (id_tag tag2, id_tag tag5) \<noteq> (id_tag tag2, id_tag tag7)
   \<and> from_tag arc25_updated = from_tag arc25 \<and> to_tag arc25_updated = to_tag arc25
   \<and> Arc__less arc25_updated arc27 = Arc__less arc25 arc27"
proof -
  note w = Arc__less_strict_total_order
    [where a = arc25 and fa = tag2 and ta = tag5 and b = arc27 and fb = tag2 and tb = tag7
       and c = arc57 and a' = arc25_updated and b' = arc27]
  note v = Arc__less_strict_total_order
    [where a = arc27 and fa = tag2 and ta = tag7 and b = arc25 and fb = tag2 and tb = tag5]
  note u = Arc__less_strict_total_order
    [where a = arc25 and fa = tag2 and ta = tag5 and b = arc25 and fb = tag2 and tb = tag5]
  note t = Arc__less_strict_total_order
    [where a = arc27 and fa = tag2 and ta = tag7 and b = arc57 and fb = tag5 and tb = tag7]
  have 1: "Arc__less arc25 arc27 = Inr True"
    using w arc25_tags example_tags by (simp add: example_ids)
  have 2: "Arc__less arc27 arc25 = Inr False"
    using v arc25_tags example_tags by (simp add: example_ids)
  have 3: "Arc__less arc25 arc25 = Inr False"
    using u arc25_tags by (simp add: example_ids)
  have 4: "Arc__less arc27 arc57 = Inr True"
    using t example_tags by (simp add: example_ids)
  have 5: "Arc__less arc25 arc57 = Inr True"
    using w 1 4 by blast
  have 6: "from_tag arc25_updated = from_tag arc25" "to_tag arc25_updated = to_tag arc25"
    by (simp_all add: arc25_tags example_tags)
  have 7: "Arc__less arc25_updated arc27 = Arc__less arc25 arc27"
    using w 6 by blast
  show ?thesis
    using arc25_tags example_tags 1 2 3 4 5 6 7 by (simp add: example_ids)
qed

text \<open>
  C7. \<open>Arc__equal\<close> is true if and only if the id of the low tag of the first edge is
  the id of the low tag of the second and the id of the high tag of the first is the id
  of the high tag of the second; a low tag is never compared with a high tag. This
  equality is reflexive on every edge whose tags are set, symmetric and transitive, and
  it does not depend on the order of the arguments at construction: the edge created from
  \<open>p\<close> to \<open>q\<close> equals the edge created from \<open>q\<close> to \<open>p\<close>, whatever was measured.
\<close>

theorem Arc__equal_pairwise_equivalence:
  "(from_tag a = Some fa \<longrightarrow> to_tag a = Some ta \<longrightarrow>
      from_tag b = Some fb \<longrightarrow> to_tag b = Some tb \<longrightarrow>
      Arc__equal a b = Inr (id_tag fa = id_tag fb \<and> id_tag ta = id_tag tb))
   \<and> (from_tag a = Some fa \<longrightarrow> to_tag a = Some ta \<longrightarrow> Arc__equal a a = Inr True)
   \<and> (Arc__equal a b = Inr True \<longrightarrow> Arc__equal b a = Inr True)
   \<and> (Arc__equal a b = Inr True \<longrightarrow> Arc__equal b c = Inr True \<longrightarrow> Arc__equal a c = Inr True)
   \<and> Arc__equal (fst (Arc__create p wp d q wq g)) (fst (Arc__create q wq' d' p wp' g'))
       = Inr True"
proof (intro conjI impI)
  assume "from_tag a = Some fa" "to_tag a = Some ta" "from_tag b = Some fb" "to_tag b = Some tb"
  then show "Arc__equal a b = Inr (id_tag fa = id_tag fb \<and> id_tag ta = id_tag tb)"
    by (rule Arc__equal_tags)
next
  assume "from_tag a = Some fa" "to_tag a = Some ta"
  then show "Arc__equal a a = Inr True"
    by (simp add: Arc__equal_tags)
next
  assume "Arc__equal a b = Inr True"
  then show "Arc__equal b a = Inr True"
    by (auto simp: Arc__equal_True)
next
  assume "Arc__equal a b = Inr True" "Arc__equal b c = Inr True"
  then show "Arc__equal a c = Inr True"
    by (auto simp: Arc__equal_True)
next
  show "Arc__equal (fst (Arc__create p wp d q wq g)) (fst (Arc__create q wq' d' p wp' g'))
       = Inr True"
    by (auto simp: Arc__equal_def Arc__create_fst)
qed

text \<open>
  The edge (2, 5) equals itself and the same edge with other measurements; it does not
  equal the edge whose low tag is 5 and whose high tag is 2, where only a comparison of
  low with high would find equal ids; and the edges created from 5 to 2 and from 2 to 5
  are equal.
\<close>

theorem Arc__equal_pairwise_equivalence_witness:
  "from_tag arc25 = Some tag2 \<and> to_tag arc25 = Some tag5
   \<and> from_tag arc25_updated = Some tag2 \<and> to_tag arc25_updated = Some tag5
   \<and> from_tag arc52 = Some tag5 \<and> to_tag arc52 = Some tag2
   \<and> Arc__equal arc25 arc25 = Inr True
   \<and> Arc__equal arc25 arc25_updated = Inr True
   \<and> Arc__equal arc25_updated arc25 = Inr True
   \<and> Arc__equal arc25_updated arc25_loaded = Inr True
   \<and> Arc__equal arc25 arc25_loaded = Inr True
   \<and> Arc__equal arc25 arc52 = Inr False
   \<and> Arc__equal (fst (Arc__create tag5 (1 / 2) 2 tag2 (1 / 4) 50))
                  (fst (Arc__create tag2 (1 / 8) (3 / 2) tag5 (3 / 8) 10)) = Inr True"
proof -
  note w = Arc__equal_pairwise_equivalence
    [where a = arc25 and fa = tag2 and ta = tag5 and b = arc25_updated and fb = tag2
       and tb = tag5 and c = arc25_loaded and p = tag5 and wp = "1 / 2" and d = 2
       and q = tag2 and wq = "1 / 4" and g = 50 and wq' = "1 / 8" and d' = "3 / 2"
       and wp' = "3 / 8" and g' = 10]
  note v = Arc__equal_pairwise_equivalence
    [where a = arc25 and fa = tag2 and ta = tag5 and b = arc52 and fb = tag5 and tb = tag2]
  have l: "Arc__equal arc25_updated arc25_loaded = Inr True"
    by (simp add: Arc__equal_def arc25_updated_def arc25_loaded_def)
  have 1: "Arc__equal arc25 arc25 = Inr True"
    using w arc25_tags by blast
  have 2: "Arc__equal arc25 arc25_updated = Inr True"
    using w arc25_tags example_tags by simp
  have 3: "Arc__equal arc25_updated arc25 = Inr True"
    using w 2 by blast
  have 4: "Arc__equal arc25 arc25_loaded = Inr True"
    using w 2 l by blast
  have 5: "Arc__equal arc25 arc52 = Inr False"
    using v arc25_tags example_tags by (simp add: example_ids)
  have 6: "Arc__equal (fst (Arc__create tag5 (1 / 2) 2 tag2 (1 / 4) 50))
                  (fst (Arc__create tag2 (1 / 8) (3 / 2) tag5 (3 / 8) 10)) = Inr True"
    using w by blast
  show ?thesis
    using arc25_tags example_tags l 1 2 3 4 5 6 by simp
qed

section \<open>The update\<close>

text \<open>
  C8. On an edge whose tags are set, \<open>Arc__update\<close> fails an assertion if the incoming
  distance is not strictly positive or if the id of the low tag is not strictly smaller
  than the id of the high tag. With a strictly positive distance and the ids in order it
  cannot fail: it returns the edge with the two twists, the distance and the quality
  overwritten by its arguments, and the tags, the tree flag and the visit counter as they
  were.
\<close>

theorem Arc__update_contract:
  assumes "from_tag a = Some lo" and "to_tag a = Some hi"
  shows "(d \<le> 0 \<or> id_tag hi \<le> id_tag lo \<longrightarrow> Arc__update a w1 d w2 g = Inl Assertion_Failed)
       \<and> (0 < d \<longrightarrow> id_tag lo < id_tag hi \<longrightarrow>
            Arc__update a w1 d w2 g =
              Inr (a \<lparr> from_twist := w1, distance := d, goodness := g, to_twist := w2 \<rparr>))
       \<and> (\<forall>a'. Arc__update a w1 d w2 g = Inr a' \<longrightarrow>
            from_twist a' = w1 \<and> distance a' = d \<and> goodness a' = g \<and> to_twist a' = w2 \<and>
            from_tag a' = from_tag a \<and> to_tag a' = to_tag a \<and>
            in_tree a' = in_tree a \<and> visit a' = visit a)"
  using assms by (auto simp: Arc__update_tags)

text \<open>
  The edge (2, 5): updated with distance 1.5 it holds the new twists, distance and quality
  and its other fields are as before; updated with distance 0 it fails the assertion; and
  the edge whose tags are stored as (5, 2) fails the assertion with distance 1.5.
\<close>

theorem Arc__update_contract_witness:
  "from_tag arc25 = Some tag2 \<and> to_tag arc25 = Some tag5
   \<and> from_tag arc52 = Some tag5 \<and> to_tag arc52 = Some tag2
   \<and> (0 :: double) < 3 / 2 \<and> id_tag tag2 < id_tag tag5
   \<and> Arc__update arc25 (1 / 8) (3 / 2) (3 / 8) 10 = Inr arc25_updated
   \<and> from_twist arc25_updated = 1 / 8 \<and> distance arc25_updated = 3 / 2
   \<and> goodness arc25_updated = 10 \<and> to_twist arc25_updated = 3 / 8
   \<and> from_tag arc25_updated = from_tag arc25 \<and> to_tag arc25_updated = to_tag arc25
   \<and> in_tree arc25_updated = in_tree arc25 \<and> visit arc25_updated = visit arc25
   \<and> (0 :: double) \<le> 0
   \<and> Arc__update arc25 (1 / 8) 0 (3 / 8) 10 = Inl Assertion_Failed
   \<and> id_tag tag2 \<le> id_tag tag5
   \<and> Arc__update arc52 (1 / 8) (3 / 2) (3 / 8) 10 = Inl Assertion_Failed"
proof -
  note w = Arc__update_contract
    [OF arc25_tags(1,2), where ?w1.0 = "1 / 8" and d = "3 / 2" and ?w2.0 = "3 / 8" and g = 10]
  note v = Arc__update_contract
    [OF arc25_tags(1,2), where ?w1.0 = "1 / 8" and d = 0 and ?w2.0 = "3 / 8" and g = 10]
  note u = Arc__update_contract
    [OF example_tags(5,6), where ?w1.0 = "1 / 8" and d = "3 / 2" and ?w2.0 = "3 / 8" and g = 10]
  have o: "id_tag tag2 < id_tag tag5" "id_tag tag2 \<le> id_tag tag5"
    by (simp_all add: example_ids)
  have 1: "from_twist arc25_updated = 1 / 8 \<and> distance arc25_updated = 3 / 2
     \<and> goodness arc25_updated = 10 \<and> to_twist arc25_updated = 3 / 8
     \<and> from_tag arc25_updated = from_tag arc25 \<and> to_tag arc25_updated = to_tag arc25
     \<and> in_tree arc25_updated = in_tree arc25 \<and> visit arc25_updated = visit arc25"
    using w Arc__update_arc25 by blast
  have 2: "Arc__update arc25 (1 / 8) 0 (3 / 8) 10 = Inl Assertion_Failed"
    using v by simp
  have 3: "Arc__update arc52 (1 / 8) (3 / 2) (3 / 8) 10 = Inl Assertion_Failed"
    using u o by simp
  show ?thesis
    using arc25_tags example_tags o Arc__update_arc25 1 2 3 by simp
qed

section \<open>Rendering\<close>

text \<open>
  C9. For every edge whose tags are set, \<open>Arc__svg_write\<close> adds one line to the drawing,
  from the position of the low tag to the position of the high tag, red when the edge is
  in the tree and green when it is not. Two edges with the same tree flag and the same
  positions of their ends add the same line, whatever their other fields are.
\<close>

theorem Arc__svg_write_one_line:
  assumes "from_tag e = Some f" and "to_tag e = Some t"
  shows "Arc__svg_write e svg =
           Inr (svg @ [SVG__line (x_tag f) (y_tag f) (x_tag t) (y_tag t)
                         (if in_tree e then ''red'' else ''green'')])
       \<and> (from_tag e' = Some f' \<longrightarrow> to_tag e' = Some t' \<longrightarrow>
            in_tree e' = in_tree e \<longrightarrow>
            x_tag f' = x_tag f \<longrightarrow> y_tag f' = y_tag f \<longrightarrow>
            x_tag t' = x_tag t \<longrightarrow> y_tag t' = y_tag t \<longrightarrow>
            Arc__svg_write e' svg = Arc__svg_write e svg)"
  using assms by (simp add: Arc__svg_write_def)

text \<open>
  The edge (2, 5), not in the tree, is a green line from (0, 0) to (3, 4); the edge
  (5, 7), in the tree, is a red line; and the edge (2, 7), not in the tree, whose high
  tag is another node at (3, 4) and whose quality, twist and visit counter differ, is
  the same green line as the edge (2, 5).
\<close>

theorem Arc__svg_write_one_line_witness:
  "from_tag arc25 = Some tag2 \<and> to_tag arc25 = Some tag5
   \<and> from_tag arc27 = Some tag2 \<and> to_tag arc27 = Some tag7
   \<and> from_tag arc57 = Some tag5 \<and> to_tag arc57 = Some tag7
   \<and> Arc__svg_write arc25 [] = Inr [SVG__line 0 0 3 4 ''green'']
   \<and> Arc__svg_write arc57 [] = Inr [SVG__line 3 4 3 4 ''red'']
   \<and> in_tree arc27 = in_tree arc25
   \<and> x_tag tag7 = x_tag tag5 \<and> y_tag tag7 = y_tag tag5
   \<and> goodness arc27 \<noteq> goodness arc25
   \<and> to_twist arc27 \<noteq> to_twist arc25 \<and> visit arc27 \<noteq> visit arc25
   \<and> id_tag tag7 \<noteq> id_tag tag5
   \<and> Arc__svg_write arc27 [] = Arc__svg_write arc25 []"
proof -
  note w = Arc__svg_write_one_line
    [OF arc25_tags(1,2), where svg = "[]" and e' = arc27 and f' = tag2 and t' = tag7]
  note v = Arc__svg_write_one_line [OF example_tags(3,4), where svg = "[]"]
  have p: "x_tag tag2 = 0" "y_tag tag2 = 0" "x_tag tag5 = 3" "y_tag tag5 = 4"
    "x_tag tag7 = 3" "y_tag tag7 = 4"
    by (simp_all add: tag2_def tag5_def tag7_def)
  have f: "in_tree arc25 = False" "in_tree arc27 = False" "in_tree arc57 = True"
    by (simp_all add: arc25_def arc27_def arc57_def)
  have o: "goodness arc27 \<noteq> goodness arc25"
    "to_twist arc27 \<noteq> to_twist arc25" "visit arc27 \<noteq> visit arc25"
    "id_tag tag7 \<noteq> id_tag tag5"
    by (simp_all add: arc25_def arc27_def example_ids)
  have 1: "Arc__svg_write arc25 [] = Inr [SVG__line 0 0 3 4 ''green'']"
    using w by (simp add: p f)
  have 2: "Arc__svg_write arc57 [] = Inr [SVG__line 3 4 3 4 ''red'']"
    using v by (simp add: p f)
  have 3: "Arc__svg_write arc27 [] = Arc__svg_write arc25 []"
    using w example_tags(1,2) by (simp add: p f)
  show ?thesis
    using arc25_tags example_tags 1 2 3 o by (simp add: p f)
qed

section \<open>The tree flag and the announcement\<close>

text \<open>
  C10. When \<open>Arc__read\<close> finds the edge of its record in the map and the quality of the
  record is not strictly smaller than the stored one, the tree flag of the edge and the
  announcements of the map are as before, whatever the \<open>In_Tree\<close> attribute of the
  record is. When the call returns after the gate has passed, the tree flag is the one of
  the record and exactly this edge has been announced. So a returning call that changed
  the flag or announced something had a record of strictly smaller quality; and with such
  a record, the tags of the edge in order and a positive distance, the call does return.
\<close>

theorem Arc__read_in_tree_behind_gate:
  assumes "Map__tag_lookup m (word_of_int (From_Tag_Id r)) = Inr ft"
      and "Map__tag_lookup m (word_of_int (To_Tag_Id r)) = Inr tt"
      and "Map__arc_lookup m ft tt = Inr a"
  shows "(goodness a \<le> Goodness r \<longrightarrow>
            (\<exists>a' m'. Arc__read r m = Inr (a', m') \<and> in_tree a' = in_tree a \<and>
                     announced m' = announced m))
       \<and> (\<forall>a' m'. Arc__read r m = Inr (a', m') \<longrightarrow> Goodness r < goodness a \<longrightarrow>
             in_tree a' = (In_Tree r \<noteq> 0) \<and> announced m' = announced m @ [a'])
       \<and> (\<forall>a' m'. Arc__read r m = Inr (a', m') \<longrightarrow>
             in_tree a' \<noteq> in_tree a \<or> announced m' \<noteq> announced m \<longrightarrow>
             Goodness r < goodness a)
       \<and> (Goodness r < goodness a \<longrightarrow> from_tag a = Some lo \<longrightarrow> to_tag a = Some hi \<longrightarrow>
             id_tag lo < id_tag hi \<longrightarrow> 0 < Distance r \<longrightarrow>
             (\<exists>a' m'. Arc__read r m = Inr (a', m')))"
proof -
  have keep: "goodness a \<le> Goodness r \<Longrightarrow> Arc__read r m = Inr (a, m)"
    by (simp add: Arc__read_load [OF assms])
  have load: "in_tree a' = (In_Tree r \<noteq> 0) \<and> announced m' = announced m @ [a']"
    if "Arc__read r m = Inr (a', m')" and "Goodness r < goodness a" for a' m'
    using that by (auto simp: Arc__read_load [OF assms] split: sum.splits)
  have only: "Goodness r < goodness a"
    if "Arc__read r m = Inr (a', m')"
      and "in_tree a' \<noteq> in_tree a \<or> announced m' \<noteq> announced m" for a' m'
  proof (rule ccontr)
    assume "\<not> Goodness r < goodness a"
    then have "goodness a \<le> Goodness r" by simp
    with that(1) have "a' = a \<and> m' = m" by (simp add: keep)
    with that(2) show False by simp
  qed
  have returns: "\<exists>a' m'. Arc__read r m = Inr (a', m')"
    if "Goodness r < goodness a" and "from_tag a = Some lo" and "to_tag a = Some hi"
      and "id_tag lo < id_tag hi" and "0 < Distance r"
    using that by (simp add: Arc__read_load [OF assms] Arc__update_tags)
  show ?thesis
    using keep load only returns by blast
qed

text \<open>
  The edge of quality 50, not in the tree: the record of quality 80 has the tree flag set
  and leaves the edge and the map as they were; the record of quality 10 sets the flag
  and announces the edge.
\<close>

theorem Arc__read_in_tree_behind_gate_witness:
  "Map__tag_lookup map25 (word_of_int (From_Tag_Id record80)) = Inr tag2
   \<and> Map__tag_lookup map25 (word_of_int (To_Tag_Id record80)) = Inr tag5
   \<and> Map__tag_lookup map25 (word_of_int (From_Tag_Id record10)) = Inr tag2
   \<and> Map__tag_lookup map25 (word_of_int (To_Tag_Id record10)) = Inr tag5
   \<and> Map__arc_lookup map25 tag2 tag5 = Inr arc25
   \<and> goodness arc25 \<le> Goodness record80
   \<and> In_Tree record80 = 1 \<and> in_tree arc25 = False
   \<and> Arc__read record80 map25 = Inr (arc25, map25)
   \<and> Goodness record10 < goodness arc25
   \<and> from_tag arc25 = Some tag2 \<and> to_tag arc25 = Some tag5
   \<and> id_tag tag2 < id_tag tag5 \<and> 0 < Distance record10
   \<and> Arc__read record10 map25 = Inr (arc25_loaded, map25_loaded)
   \<and> in_tree arc25_loaded = (In_Tree record10 \<noteq> 0)
   \<and> in_tree arc25_loaded \<noteq> in_tree arc25
   \<and> announced map25_loaded = announced map25 @ [arc25_loaded]"
proof -
  note w80 = Arc__read_in_tree_behind_gate [OF map25_lookups(1,2,5), of tag2 tag5]
  note w10 = Arc__read_in_tree_behind_gate [OF map25_lookups(3,4,5), of tag2 tag5]
  have g: "goodness arc25 \<le> Goodness record80" "In_Tree record80 = 1"
    "in_tree arc25 = False" "Goodness record10 < goodness arc25" "0 < Distance record10"
    by (simp_all add: arc25_def record80_def record10_def)
  have k: "in_tree arc25_loaded = (In_Tree record10 \<noteq> 0)
      \<and> announced map25_loaded = announced map25 @ [arc25_loaded]"
    using w10 Arc__read_record10 g by blast
  have c: "in_tree arc25_loaded \<noteq> in_tree arc25"
    by (simp add: arc25_loaded_def arc25_def)
  have "\<exists>a' m'. Arc__read record80 map25 = Inr (a', m') \<and> in_tree a' = in_tree arc25 \<and>
      announced m' = announced map25"
    using w80 g by blast
  then show ?thesis
    using map25_lookups g Arc__read_record80 arc25_tags Arc__read_record10 k c by simp
qed

section \<open>The round trip through the file\<close>







end
